theory Spec2Isabelle
  imports Complex_Main
begin

section \<open>Theme values\<close>

text \<open>
  \<^verbatim>\<open>type Theme = "light" | "dark" | "system"\<close> and
  \<^verbatim>\<open>type ResolvedTheme = "light" | "dark"\<close>. Both are string literal types; the
  functions \<open>theme_str\<close> and \<open>resolved_str\<close> give the string each value is at run time
  (what is written to storage, to the class list and to the cookie).
\<close>

datatype Theme = Light | Dark | System

datatype ResolvedTheme = RLight | RDark

fun theme_str :: "Theme \<Rightarrow> string" where
  "theme_str Light = ''light''"
| "theme_str Dark = ''dark''"
| "theme_str System = ''system''"

fun resolved_str :: "ResolvedTheme \<Rightarrow> string" where
  "resolved_str RLight = ''light''"
| "resolved_str RDark = ''dark''"

text \<open>A resolved value read as a member of the larger type \<open>Theme\<close>.\<close>

fun as_theme :: "ResolvedTheme \<Rightarrow> Theme" where
  "as_theme RLight = Light"
| "as_theme RDark = Dark"

datatype error =
    ReferenceError
  | NotFoundError
  | SecurityError
  | Error string

section \<open>The host environment\<close>

text \<open>
  The render surface. \<open>classList\<close> is the class list of the root element,
  \<open>attributes\<close> its attributes, \<open>colorScheme\<close> its inline \<open>color-scheme\<close> style.
  \<open>head\<close> holds the style elements the providers appended to the document head, each
  with the identity \<open>createElement\<close> gave it and its text; \<open>computed\<close> lists the
  style elements that were in the head at the last \<open>getComputedStyle\<close>.
  \<open>cookies\<close> is the cookie jar behind \<open>document.cookie\<close>, and \<open>animations\<close>
  the animations started with \<open>documentElement.animate\<close>. \<open>calls\<close> lists the
  method calls made on the document, oldest first.
\<close>

datatype dom_call =
    ClassListRemove "string list"
  | ClassListAdd string
  | SetAttribute string string
  | AppendChild nat
  | GetComputedStyle
  | RemoveChild nat

record cookie =
  c_value :: string
  c_path :: string
  c_max_age :: nat
  c_same_site :: string

text \<open>\<open>Circle r x y\<close> is the clip path \<^verbatim>\<open>circle(r px at x px y px)\<close>.\<close>

datatype clip_path = Circle real real real

record animation =
  clip_from :: clip_path
  clip_to :: clip_path
  duration :: nat
  easing :: string
  pseudoElement :: string

record dom =
  classList :: "string list"
  attributes :: "string \<rightharpoonup> string"
  colorScheme :: "string option"
  head :: "(nat \<times> string) list"
  next_node :: nat
  computed :: "nat list"
  cookies :: "string \<rightharpoonup> cookie"
  animations :: "animation list"
  calls :: "dom_call list"

text \<open>
  A view transition started with \<open>startViewTransition\<close> and not yet run: the theme its
  update callback will write, and the animation its \<open>ready\<close> continuation will start.
\<close>

record view_transition =
  vt_update :: string
  vt_on_ready :: "animation option"

text \<open>
  A browser: the \<open>window\<close> object with its document. \<open>prefers_dark\<close> is what
  \<open>matchMedia("(prefers-color-scheme: dark)").matches\<close> reports; \<open>getItem_throws\<close>
  and \<open>setItem_throws\<close> say whether the storage calls raise (storage disabled, quota);
  \<open>timers\<close> are the pending \<open>setTimeout\<close> callbacks, each a delay and the style
  element it will remove; \<open>has_startViewTransition\<close> says whether the document has
  the transition capability.

  The environment of a provider is \<open>Some\<close> browser, or \<open>None\<close> where neither
  \<open>window\<close> nor \<open>document\<close> exists (server rendering): the two \<open>typeof\<close> tests
  of the source, on \<open>window\<close> and on \<open>document\<close>, are the one test on this option.
\<close>

record browser =
  prefers_dark :: bool
  getItem_throws :: bool
  setItem_throws :: bool
  localStorage :: "string \<rightharpoonup> string"
  document :: dom
  timers :: "(nat \<times> nat) list"
  innerWidth :: real
  innerHeight :: real
  has_startViewTransition :: bool
  transitions :: "view_transition list"

type_synonym env = "browser option"

subsection \<open>DOM primitives\<close>

text \<open>
  Each primitive records its call. \<open>classList_remove\<close> and \<open>classList_add\<close> give
  what \<open>classList.remove\<close> and \<open>classList.add\<close> do for tokens that are not empty
  and hold no white space, and \<open>setAttribute\<close> what \<open>Element.setAttribute\<close> does
  for a valid attribute name: for an empty token the DOM raises a \<open>SyntaxError\<close>, for
  a token with white space or an invalid name an \<open>InvalidCharacterError\<close>. The first
  provider passes \<open>light\<close>, \<open>dark\<close> and \<open>data-theme\<close> only; the second passes
  the theme it resolved and its \<open>attribute\<close> prop.
\<close>

definition classList_remove :: "string list \<Rightarrow> dom \<Rightarrow> dom" where
  "classList_remove toks d =
     d\<lparr>classList := filter (\<lambda>c. c \<notin> set toks) (classList d),
       calls := calls d @ [ClassListRemove toks]\<rparr>"

definition classList_add :: "string \<Rightarrow> dom \<Rightarrow> dom" where
  "classList_add tok d =
     (if tok \<in> set (classList d) then d\<lparr>calls := calls d @ [ClassListAdd tok]\<rparr>
      else d\<lparr>classList := classList d @ [tok], calls := calls d @ [ClassListAdd tok]\<rparr>)"

definition setAttribute :: "string \<Rightarrow> string \<Rightarrow> dom \<Rightarrow> dom" where
  "setAttribute name v d =
     d\<lparr>attributes := (attributes d)(name \<mapsto> v), calls := calls d @ [SetAttribute name v]\<rparr>"

text \<open>
  A name that is a valid attribute name in every browser: an XML name made of ASCII
  letters, digits and the characters \<open>_ : - .\<close>, starting with a letter, \<open>_\<close> or
  \<open>:\<close>.
\<close>

definition name_start_char :: "char \<Rightarrow> bool" where
  "name_start_char ch \<longleftrightarrow>
     ch \<in> set ''abcdefghijklmnopqrstuvwxyzABCDEFGHIJKLMNOPQRSTUVWXYZ_:''"

definition name_char :: "char \<Rightarrow> bool" where
  "name_char ch \<longleftrightarrow> name_start_char ch \<or> ch \<in> set ''0123456789-.''"

definition valid_attribute_name :: "string \<Rightarrow> bool" where
  "valid_attribute_name name =
     (case name of [] \<Rightarrow> False | ch # rest \<Rightarrow> name_start_char ch \<and> list_all name_char rest)"

definition transition_none_css :: string where
  "transition_none_css =
     ''*{-webkit-transition:none!important;-moz-transition:none!important;-o-transition:none!important;-ms-transition:none!important;transition:none!important}''"

text \<open>
  \<open>createElement("style")\<close>, the text, and \<open>head.appendChild\<close>: the new element
  gets the next free identity, which is returned with the document.
\<close>

definition appendStyle :: "string \<Rightarrow> dom \<Rightarrow> nat \<times> dom" where
  "appendStyle txt d =
     (next_node d,
      d\<lparr>head := head d @ [(next_node d, txt)], next_node := Suc (next_node d),
        calls := calls d @ [AppendChild (next_node d)]\<rparr>)"

definition getComputedStyle :: "dom \<Rightarrow> dom" where
  "getComputedStyle d =
     d\<lparr>computed := map fst (head d), calls := calls d @ [GetComputedStyle]\<rparr>"

text \<open>\<open>head.removeChild\<close> raises when the node is not a child of the head.\<close>

definition removeChild :: "nat \<Rightarrow> dom \<Rightarrow> error + dom" where
  "removeChild n d =
     (if n \<in> set (map fst (head d))
      then Inr (d\<lparr>head := filter (\<lambda>e. fst e \<noteq> n) (head d),
                  calls := calls d @ [RemoveChild n]\<rparr>)
      else Inl NotFoundError)"

definition setTimeout :: "nat \<Rightarrow> nat \<Rightarrow> browser \<Rightarrow> browser" where
  "setTimeout css ms b = b\<lparr>timers := timers b @ [(ms, css)]\<rparr>"

text \<open>
  One turn of the event loop after the delays have passed: every pending timer runs its
  callback \<open>document.head.removeChild(css)\<close>, in the order the timers were set. An
  error raised by a callback is reported (collected in the list) and does not stop the
  others.
\<close>

fun run_timers :: "(nat \<times> nat) list \<Rightarrow> dom \<Rightarrow> error list \<times> dom" where
  "run_timers [] d = ([], d)"
| "run_timers ((ms, css) # ts) d =
     (case removeChild css d of
        Inl e \<Rightarrow> (case run_timers ts d of (es, d') \<Rightarrow> (e # es, d'))
      | Inr d1 \<Rightarrow> run_timers ts d1)"

definition tick :: "browser \<Rightarrow> error list \<times> browser" where
  "tick b =
     (case run_timers (timers b) (document b) of
        (es, d) \<Rightarrow> (es, b\<lparr>document := d, timers := []\<rparr>))"

section \<open>First provider\<close>

datatype attribute_mode = Class | DataTheme

record A_props =
  defaultTheme :: Theme
  storageKey :: string
  attribute :: attribute_mode
  disableTransitionOnChange :: bool
  forcedTheme :: "Theme option"
  enableCookieStorage :: bool
  cookieName :: string

text \<open>The defaults of the destructured props.\<close>

definition A_default_props :: A_props where
  "A_default_props =
     \<lparr>defaultTheme = Dark, storageKey = ''theme'', attribute = Class,
      disableTransitionOnChange = True, forcedTheme = None,
      enableCookieStorage = False, cookieName = ''theme''\<rparr>"

record A_state =
  theme :: Theme
  systemTheme :: "ResolvedTheme option"
  resolvedTheme :: ResolvedTheme

definition A_getSystemTheme :: "env \<Rightarrow> ResolvedTheme" where
  "A_getSystemTheme e =
     (case e of
        None \<Rightarrow> RDark
      | Some b \<Rightarrow> (if prefers_dark b then RDark else RLight))"

definition A_getStoredTheme :: "string \<Rightarrow> Theme \<Rightarrow> env \<Rightarrow> Theme" where
  "A_getStoredTheme key dflt e =
     (case e of
        None \<Rightarrow> dflt
      | Some b \<Rightarrow>
          (if getItem_throws b then dflt
           else let stored = localStorage b key in
             if stored = Some ''light'' then Light
             else if stored = Some ''dark'' then Dark
             else if stored = Some ''system'' then System
             else dflt))"

text \<open>
  \<open>setCookie\<close> pastes the name and the value into the cookie string; this is the
  cookie it sets for a name and a value without \<open>;\<close> and \<open>=\<close>.
\<close>

definition A_setCookie :: "string \<Rightarrow> string \<Rightarrow> env \<Rightarrow> env" where
  "A_setCookie name v e =
     (case e of
        None \<Rightarrow> None
      | Some b \<Rightarrow>
          Some (b\<lparr>document := (document b)\<lparr>cookies := (cookies (document b))
            (name \<mapsto> \<lparr>c_value = v, c_path = ''/'', c_max_age = 31536000,
                       c_same_site = ''Lax''\<rparr>)\<rparr>\<rparr>))"

text \<open>
  The \<open>disableTransition\<close> block of \<open>applyTheme\<close>: append the style element, call
  \<open>getComputedStyle\<close>, set the timer that removes the element after 1 ms.
\<close>

definition A_suppress :: "browser \<Rightarrow> browser" where
  "A_suppress b =
     (case appendStyle transition_none_css (document b) of
        (css, d) \<Rightarrow> setTimeout css 1 (b\<lparr>document := getComputedStyle d\<rparr>))"

text \<open>The marker write that ends \<open>applyTheme\<close>.\<close>

definition A_set_marker :: "ResolvedTheme \<Rightarrow> attribute_mode \<Rightarrow> dom \<Rightarrow> dom" where
  "A_set_marker t attr d =
     (case attr of
        Class \<Rightarrow> classList_add (resolved_str t) (classList_remove [''light'', ''dark''] d)
      | DataTheme \<Rightarrow> setAttribute ''data-theme'' (resolved_str t) d)"

definition A_applyTheme :: "ResolvedTheme \<Rightarrow> attribute_mode \<Rightarrow> bool \<Rightarrow> env \<Rightarrow> env" where
  "A_applyTheme t attr disableTransition e =
     (case e of
        None \<Rightarrow> None
      | Some b \<Rightarrow>
          (let b1 = (if disableTransition then A_suppress b else b)
           in Some (b1\<lparr>document := A_set_marker t attr (document b1)\<rparr>)))"

text \<open>The three \<open>useState\<close> initialisers.\<close>

definition A_init :: "A_props \<Rightarrow> env \<Rightarrow> A_state" where
  "A_init p e =
     \<lparr>theme = (case forcedTheme p of
                 Some f \<Rightarrow> f
               | None \<Rightarrow> A_getStoredTheme (storageKey p) (defaultTheme p) e),
      systemTheme = Some (A_getSystemTheme e),
      resolvedTheme =
        (let current = (case forcedTheme p of
                          Some f \<Rightarrow> f
                        | None \<Rightarrow> A_getStoredTheme (storageKey p) (defaultTheme p) e)
         in case current of
              System \<Rightarrow> A_getSystemTheme e
            | Light \<Rightarrow> RLight
            | Dark \<Rightarrow> RDark)\<rparr>"

text \<open>\<open>systemTheme || getSystemTheme()\<close>\<close>

definition A_system_or_read :: "A_state \<Rightarrow> env \<Rightarrow> ResolvedTheme" where
  "A_system_or_read s e =
     (case systemTheme s of Some a \<Rightarrow> a | None \<Rightarrow> A_getSystemTheme e)"

text \<open>The mount effect (the effect with the empty dependency list).\<close>

definition A_mount :: "A_props \<Rightarrow> A_state \<times> env \<Rightarrow> A_state \<times> env" where
  "A_mount p se =
     (case se of (s, e) \<Rightarrow>
        (let current = (case forcedTheme p of Some f \<Rightarrow> f | None \<Rightarrow> theme s);
             resolved = (case current of
                           System \<Rightarrow> A_system_or_read s e
                         | Light \<Rightarrow> RLight
                         | Dark \<Rightarrow> RDark);
             e1 = A_applyTheme resolved (attribute p) False e;
             e2 = (if enableCookieStorage p
                   then A_setCookie (cookieName p) (resolved_str resolved) e1 else e1)
         in (s\<lparr>resolvedTheme := resolved\<rparr>, e2)))"

text \<open>\<open>try { localStorage.setItem(key, value) } catch {}\<close>\<close>

definition save :: "string \<Rightarrow> string \<Rightarrow> env \<Rightarrow> env" where
  "save key v e =
     (case e of
        None \<Rightarrow> None
      | Some b \<Rightarrow>
          (if setItem_throws b then Some b
           else Some (b\<lparr>localStorage := (localStorage b)(key \<mapsto> v)\<rparr>)))"

definition A_setTheme :: "A_props \<Rightarrow> Theme \<Rightarrow> A_state \<times> env \<Rightarrow> A_state \<times> env" where
  "A_setTheme p newTheme se =
     (case se of (s, e) \<Rightarrow>
        (if forcedTheme p \<noteq> None then (s, e)
         else
           (let resolved = (case newTheme of
                              System \<Rightarrow> A_system_or_read s e
                            | Light \<Rightarrow> RLight
                            | Dark \<Rightarrow> RDark);
                e1 = A_applyTheme resolved (attribute p) (disableTransitionOnChange p) e;
                e2 = save (storageKey p) (theme_str newTheme) e1;
                e3 = (if enableCookieStorage p
                      then A_setCookie (cookieName p) (resolved_str resolved) e2 else e2)
            in (s\<lparr>theme := newTheme, resolvedTheme := resolved\<rparr>, e3))))"

text \<open>
  The media query's change event: the environment reports the new preference, and the
  subscribed \<open>handleChange\<close> runs with it.
\<close>

definition A_handleChange :: "A_props \<Rightarrow> bool \<Rightarrow> A_state \<times> env \<Rightarrow> A_state \<times> env" where
  "A_handleChange p matches se =
     (case se of (s, e) \<Rightarrow>
        (let newSystemTheme = (if matches then RDark else RLight);
             s1 = s\<lparr>systemTheme := Some newSystemTheme\<rparr>
         in if theme s = System
            then
              (let e1 = A_applyTheme newSystemTheme (attribute p)
                          (disableTransitionOnChange p) e;
                   e2 = (if enableCookieStorage p
                         then A_setCookie (cookieName p) (resolved_str newSystemTheme) e1
                         else e1)
               in (s1\<lparr>resolvedTheme := newSystemTheme\<rparr>, e2))
            else (s1, e)))"

text \<open>The value given to the context provider and the hook that reads it.\<close>

record A_context =
  ctx_theme :: Theme
  ctx_resolvedTheme :: ResolvedTheme
  ctx_systemTheme :: "ResolvedTheme option"

definition A_context_value :: "A_props \<Rightarrow> A_state \<Rightarrow> A_context" where
  "A_context_value p s =
     \<lparr>ctx_theme = (case forcedTheme p of Some f \<Rightarrow> f | None \<Rightarrow> theme s),
      ctx_resolvedTheme = resolvedTheme s,
      ctx_systemTheme = systemTheme s\<rparr>"

definition A_useTheme :: "'c option \<Rightarrow> error + 'c" where
  "A_useTheme context =
     (case context of
        None \<Rightarrow> Inl (Error ''useTheme must be used within ThemeProvider'')
      | Some c \<Rightarrow> Inr c)"

section \<open>Second provider\<close>

text \<open>
  The second provider reads the stored string with a cast and no check, so its
  \<open>theme\<close> and \<open>resolvedTheme\<close> states hold whatever string the storage held:
  they are strings here. The setter's argument is checked by the type checker at every
  call site and stays a \<open>Theme\<close>.
\<close>

record B_props =
  b_defaultTheme :: Theme
  b_storageKey :: string
  b_attribute :: string
  enableSystem :: bool
  b_disableTransitionOnChange :: bool
  enableViewTransitions :: bool

definition B_default_props :: B_props where
  "B_default_props =
     \<lparr>b_defaultTheme = System, b_storageKey = ''theme-preference'', b_attribute = ''class'',
      enableSystem = True, b_disableTransitionOnChange = False,
      enableViewTransitions = True\<rparr>"

record B_state =
  b_theme :: string
  b_resolvedTheme :: string
  mounted :: bool

text \<open>
  The initialiser of the \<open>theme\<close> state:
  \<^verbatim>\<open>(localStorage.getItem(storageKey) as Theme) || defaultTheme\<close> inside the test on
  \<open>window\<close>. There is no \<open>try\<close> around it, and \<open>||\<close> takes the default for
  \<open>null\<close> and for the empty string.
\<close>

definition B_load :: "string \<Rightarrow> Theme \<Rightarrow> env \<Rightarrow> error + string" where
  "B_load key dflt e =
     (case e of
        None \<Rightarrow> Inr (theme_str dflt)
      | Some b \<Rightarrow>
          (if getItem_throws b then Inl SecurityError
           else case localStorage b key of
                  None \<Rightarrow> Inr (theme_str dflt)
                | Some v \<Rightarrow> (if v = [] then Inr (theme_str dflt) else Inr v)))"

definition B_init :: "B_props \<Rightarrow> env \<Rightarrow> error + B_state" where
  "B_init p e =
     (case B_load (b_storageKey p) (b_defaultTheme p) e of
        Inl err \<Rightarrow> Inl err
      | Inr t \<Rightarrow> Inr \<lparr>b_theme = t, b_resolvedTheme = ''light'', mounted = False\<rparr>)"

definition B_getSystemTheme :: "env \<Rightarrow> ResolvedTheme" where
  "B_getSystemTheme e =
     (case e of
        None \<Rightarrow> RLight
      | Some b \<Rightarrow> (if prefers_dark b then RDark else RLight))"

definition B_resolveTheme :: "env \<Rightarrow> string \<Rightarrow> string" where
  "B_resolveTheme e currentTheme =
     (if currentTheme = ''system'' then resolved_str (B_getSystemTheme e) else currentTheme)"

definition B_updateTheme :: "B_props \<Rightarrow> string \<Rightarrow> dom \<Rightarrow> dom" where
  "B_updateTheme p newTheme d =
     (let d1 = classList_remove [''light'', ''dark''] d;
          d2 = (if b_attribute p = ''class'' then classList_add newTheme d1
                else setAttribute (b_attribute p) newTheme d1)
      in d2\<lparr>colorScheme := Some newTheme\<rparr>)"

definition B_suppress :: "browser \<Rightarrow> browser" where
  "B_suppress b =
     (case appendStyle transition_none_css (document b) of
        (css, d) \<Rightarrow> setTimeout css 1 (b\<lparr>document := getComputedStyle d\<rparr>))"

text \<open>\<open>Math.hypot\<close> on two arguments, over the reals.\<close>

definition hypot :: "real \<Rightarrow> real \<Rightarrow> real" where
  "hypot a b = sqrt (a\<^sup>2 + b\<^sup>2)"

text \<open>
  \<open>doc.startViewTransition(callback)\<close>: the transition is queued with the theme its
  callback writes and what its \<open>ready\<close> continuation starts.
\<close>

definition startViewTransition :: "string \<Rightarrow> animation option \<Rightarrow> browser \<Rightarrow> browser" where
  "startViewTransition newTheme on_ready b =
     b\<lparr>transitions := transitions b @ [\<lparr>vt_update = newTheme, vt_on_ready = on_ready\<rparr>]\<rparr>"

text \<open>
  \<open>applyTheme\<close> of the second provider. Its first statement reads
  \<open>document.documentElement\<close> with no test on \<open>document\<close>; the click event is given
  by its \<open>clientX\<close> and \<open>clientY\<close>.
\<close>

definition B_applyTheme ::
  "B_props \<Rightarrow> string \<Rightarrow> (real \<times> real) option \<Rightarrow> env \<Rightarrow> error + env" where
  "B_applyTheme p newTheme clickEvent e =
     (case e of
        None \<Rightarrow> Inl ReferenceError
      | Some b \<Rightarrow>
          (if \<not> enableViewTransitions p \<or> \<not> has_startViewTransition b
           then
             (let b1 = (if b_disableTransitionOnChange p then B_suppress b else b)
              in Inr (Some (b1\<lparr>document := B_updateTheme p newTheme (document b1)\<rparr>)))
           else
             (case clickEvent of
                Some (x, y) \<Rightarrow>
                  (let endRadius = hypot (max x (innerWidth b - x)) (max y (innerHeight b - y))
                   in Inr (Some (startViewTransition newTheme
                        (Some \<lparr>clip_from = Circle 0 x y, clip_to = Circle endRadius x y,
                               duration = 500, easing = ''ease-in-out'',
                               pseudoElement = ''::view-transition-new(root)''\<rparr>) b)))
              | None \<Rightarrow> Inr (Some (startViewTransition newTheme None b)))))"

text \<open>
  The browser runs the queued transitions in order: the update callback, then, once the
  transition is ready, the continuation that starts the animation.
\<close>

fun run_transitions :: "B_props \<Rightarrow> view_transition list \<Rightarrow> dom \<Rightarrow> dom" where
  "run_transitions p [] d = d"
| "run_transitions p (t # ts) d =
     (let d1 = B_updateTheme p (vt_update t) d
      in run_transitions p ts
           (case vt_on_ready t of
              None \<Rightarrow> d1
            | Some a \<Rightarrow> d1\<lparr>animations := animations d1 @ [a]\<rparr>))"

definition settle :: "B_props \<Rightarrow> browser \<Rightarrow> browser" where
  "settle p b =
     b\<lparr>document := run_transitions p (transitions b) (document b), transitions := []\<rparr>"

definition B_setTheme ::
  "B_props \<Rightarrow> Theme \<Rightarrow> (real \<times> real) option \<Rightarrow> B_state \<times> env \<Rightarrow> error + B_state \<times> env" where
  "B_setTheme p newTheme clickEvent se =
     (case se of (s, e) \<Rightarrow>
        (let e1 = save (b_storageKey p) (theme_str newTheme) e;
             resolved = B_resolveTheme e1 (theme_str newTheme)
         in case B_applyTheme p resolved clickEvent e1 of
              Inl err \<Rightarrow> Inl err
            | Inr e2 \<Rightarrow>
                Inr (s\<lparr>b_theme := theme_str newTheme, b_resolvedTheme := resolved\<rparr>, e2)))"




definition B_useTheme :: "'c option \<Rightarrow> error + 'c" where
  "B_useTheme context =
     (case context of
        None \<Rightarrow> Inl (Error ''useTheme debe usarse dentro de ThemeProvider'')
      | Some c \<Rightarrow> Inr c)"

section \<open>The specification's resolver\<close>

text \<open>
  The resolver as the specification words it: a binary declared preference is the
  resolved value, \<open>system\<close> follows the ambient value, and a configured override is
  resolved in place of the declared preference.
\<close>

fun resolve_declared :: "Theme \<Rightarrow> ResolvedTheme \<Rightarrow> ResolvedTheme" where
  "resolve_declared Light a = RLight"
| "resolve_declared Dark a = RDark"
| "resolve_declared System a = a"

fun resolve_spec :: "Theme option \<Rightarrow> Theme \<Rightarrow> ResolvedTheme \<Rightarrow> ResolvedTheme" where
  "resolve_spec None p a = resolve_declared p a"
| "resolve_spec (Some f) p a = resolve_declared f a"

section \<open>Sample environments\<close>

text \<open>An empty document and a browser with nothing stored, used as concrete inputs.\<close>

definition blank_dom :: dom where
  "blank_dom =
     \<lparr>classList = [], attributes = Map.empty, colorScheme = None, head = [], next_node = 0,
      computed = [], cookies = Map.empty, animations = [], calls = []\<rparr>"

definition blank_browser :: browser where
  "blank_browser =
     \<lparr>prefers_dark = False, getItem_throws = False, setItem_throws = False,
      localStorage = Map.empty, document = blank_dom, timers = [],
      innerWidth = 6, innerHeight = 8, has_startViewTransition = True, transitions = []\<rparr>"

section \<open>Runs of the first provider\<close>

text \<open>
  What can happen to a mounted first provider: a consumer calls the setter, or the media
  query reports a change of the ambient preference. The change event reaches
  \<open>handleChange\<close> only where a window exists, since the subscribing effect returns
  at once without one.
\<close>

datatype A_event = SetTheme Theme | MediaChange bool

definition A_media_change :: "A_props \<Rightarrow> bool \<Rightarrow> A_state \<times> env \<Rightarrow> A_state \<times> env" where
  "A_media_change p m se =
     (case se of (s, e) \<Rightarrow>
        (case e of
           None \<Rightarrow> (s, e)
         | Some b \<Rightarrow> A_handleChange p m (s, Some (b\<lparr>prefers_dark := m\<rparr>))))"

fun A_step :: "A_props \<Rightarrow> A_event \<Rightarrow> A_state \<times> env \<Rightarrow> A_state \<times> env" where
  "A_step p (SetTheme v) se = A_setTheme p v se"
| "A_step p (MediaChange m) se = A_media_change p m se"

definition A_start :: "A_props \<Rightarrow> env \<Rightarrow> A_state \<times> env" where
  "A_start p e = A_mount p (A_init p e, e)"

definition A_run :: "A_props \<Rightarrow> A_event list \<Rightarrow> env \<Rightarrow> A_state \<times> env" where
  "A_run p evs e = foldl (\<lambda>se ev. A_step p ev se) (A_start p e) evs"

text \<open>
  The state a forced provider keeps: the \<open>theme\<close> state is the override, the held
  ambient value is the one the environment reports, and the resolved value is the
  override's resolution against it.
\<close>

definition forced_inv :: "Theme \<Rightarrow> A_state \<times> env \<Rightarrow> bool" where
  "forced_inv f se =
     (case se of (s, e) \<Rightarrow>
        theme s = f \<and> systemTheme s = Some (A_getSystemTheme e)
        \<and> resolvedTheme s = resolve_declared f (A_getSystemTheme e))"

section \<open>The root marker\<close>

text \<open>
  What the style sheets select on: the class list, the attributes and the colour scheme
  of the root element.
\<close>

definition marker :: "dom \<Rightarrow> string list \<times> (string \<rightharpoonup> string) \<times> string option" where
  "marker d = (classList d, attributes d, colorScheme d)"

text \<open>
  The animation the \<open>ready\<close> continuation of \<open>applyTheme\<close> starts for a click
  event, and none without one.
\<close>

definition reveal :: "(real \<times> real) option \<Rightarrow> browser \<Rightarrow> animation option" where
  "reveal clickEvent b =
     (case clickEvent of
        None \<Rightarrow> None
      | Some (x, y) \<Rightarrow>
          Some \<lparr>clip_from = Circle 0 x y,
                clip_to = Circle (hypot (max x (innerWidth b - x)) (max y (innerHeight b - y))) x y,
                duration = 500, easing = ''ease-in-out'',
                pseudoElement = ''::view-transition-new(root)''\<rparr>)"

section \<open>The viewport\<close>

text \<open>
  The four corners of a viewport of width \<open>w\<close> and height \<open>h\<close>, the distance
  between two points, and the greatest distance from a point to a corner.
\<close>

definition viewport_corners :: "real \<Rightarrow> real \<Rightarrow> (real \<times> real) list" where
  "viewport_corners w h = [(0, 0), (w, 0), (0, h), (w, h)]"

definition distance :: "real \<times> real \<Rightarrow> real \<times> real \<Rightarrow> real" where
  "distance a c = sqrt ((fst a - fst c)\<^sup>2 + (snd a - snd c)\<^sup>2)"

definition farthest_corner :: "real \<Rightarrow> real \<Rightarrow> real \<Rightarrow> real \<Rightarrow> real" where
  "farthest_corner x y w h = Max (distance (x, y) ` set (viewport_corners w h))"

section \<open>Resolution\<close>

text \<open>
  Claim C1. The resolved value is the specification's resolver applied to the override,
  the declared preference and the ambient value: in the first provider at
  initialisation and at mount (where an override, when configured, replaces the
  declared preference) and in its setter when no override is configured (a binary
  argument is the resolved value, \<open>system\<close> gives the ambient value the provider
  holds); and in \<open>resolveTheme\<close> of the second provider, which has no override.
\<close>

theorem resolved_is_resolve_spec:
  "resolvedTheme (A_init p e) =
     resolve_spec (forcedTheme p) (A_getStoredTheme (storageKey p) (defaultTheme p) e)
       (A_getSystemTheme e)
   \<and> resolvedTheme (fst (A_mount p (s, e))) =
       resolve_spec (forcedTheme p) (theme s) (A_system_or_read s e)
   \<and> resolvedTheme (fst (A_setTheme (p\<lparr>forcedTheme := None\<rparr>) v (s, e))) =
       resolve_spec None v (A_system_or_read s e)
   \<and> B_resolveTheme e' (theme_str v) = resolved_str (resolve_spec None v (B_getSystemTheme e'))"
  by (auto simp: A_init_def A_mount_def A_setTheme_def B_resolveTheme_def Let_def
      split: option.splits Theme.splits)

section \<open>The ambient signal without a window\<close>

text \<open>
  Claim C2, as stated: without a window, \<open>getSystemTheme\<close> returns \<open>light\<close>. The
  first provider returns \<open>dark\<close> there.
\<close>

theorem A_getSystemTheme_without_window: "A_getSystemTheme None \<noteq> RLight"
  by (simp add: A_getSystemTheme_def)

text \<open>
  Claim C2, amended: without a window, \<open>getSystemTheme\<close> returns a fixed fallback:
  \<open>light\<close> in the second provider, \<open>dark\<close> in the first (whose default theme is
  \<open>dark\<close> too).
\<close>

theorem ambient_fallback_without_window:
  "B_getSystemTheme None = RLight \<and> A_getSystemTheme None = RDark"
  by (simp add: A_getSystemTheme_def B_getSystemTheme_def)

section \<open>The preference store\<close>

text \<open>
  With working storage, the first provider reads back what the setter saved and
  discards every other stored string.
\<close>

lemma A_save_load:
  "\<not> setItem_throws b \<Longrightarrow> \<not> getItem_throws b \<Longrightarrow>
   A_getStoredTheme key dflt (save key (theme_str t) (Some b)) = t"
  by (cases t) (simp_all add: A_getStoredTheme_def save_def)

lemma A_load_discards_unrecognized:
  "\<not> setItem_throws b \<Longrightarrow> v \<notin> {''light'', ''dark'', ''system''} \<Longrightarrow>
   A_getStoredTheme key dflt (save key v (Some b)) = dflt"
  by (auto simp add: A_getStoredTheme_def save_def Let_def)

lemma B_save_load:
  "\<not> setItem_throws b \<Longrightarrow> \<not> getItem_throws b \<Longrightarrow>
   B_load key dflt (save key (theme_str t) (Some b)) = Inr (theme_str t)"
  by (cases t) (simp_all add: B_load_def save_def)

text \<open>
  Claim C3. After \<open>purple\<close> is stored under the key, the load of the second provider
  returns \<open>purple\<close>, not the default \<open>system\<close>: the stored string is cast to
  \<open>Theme\<close> and never compared with the three values.
\<close>

theorem B_load_keeps_unrecognized:
  "B_load ''theme-preference'' System
     (save ''theme-preference'' ''purple'' (Some blank_browser)) = Inr ''purple''"
  by (simp add: B_load_def save_def blank_browser_def)

section \<open>Without a render surface\<close>

text \<open>
  Without a document, \<open>applyTheme\<close> and \<open>setCookie\<close> of the first provider return
  at once, so its mount effect and its setter leave the environment as it is.
\<close>

lemma A_without_document:
  "A_applyTheme t attr dt None = None
   \<and> A_setCookie name v None = None
   \<and> snd (A_mount p (s, None)) = None
   \<and> snd (A_setTheme p nt (s, None)) = None"
  by (simp add: A_applyTheme_def A_setCookie_def A_mount_def A_setTheme_def save_def Let_def)

text \<open>
  Claim C6. Where no document exists, the state of the second provider with its default
  props is the one its initialisers build; a call \<open>setTheme("dark")\<close> there gets past
  the storage write (its error is caught) and past \<open>getSystemTheme\<close> (guarded), and
  then raises a \<open>ReferenceError\<close> in \<open>applyTheme\<close>, which reads
  \<open>document.documentElement\<close> with no test on \<open>document\<close>.
\<close>

theorem B_setTheme_without_document_raises:
  "B_init B_default_props None
     = Inr \<lparr>b_theme = ''system'', b_resolvedTheme = ''light'', mounted = False\<rparr>
   \<and> B_setTheme B_default_props Dark None
        (\<lparr>b_theme = ''system'', b_resolvedTheme = ''light'', mounted = False\<rparr>, None)
     = Inl ReferenceError"
  by (simp add: B_init_def B_load_def B_default_props_def B_setTheme_def save_def
      B_resolveTheme_def B_applyTheme_def Let_def)

section \<open>The hook outside a provider\<close>

text \<open>
  Claim C9. \<open>useTheme\<close> raises when no provider is above it (the context is
  \<open>undefined\<close>), and returns the context value, without raising, when one is; in both
  providers.
\<close>

theorem useTheme_outside_provider_raises:
  "A_useTheme None = Inl (Error ''useTheme must be used within ThemeProvider'')
   \<and> (\<forall>c. A_useTheme (Some c) = Inr c)
   \<and> B_useTheme None = Inl (Error ''useTheme debe usarse dentro de ThemeProvider'')
   \<and> (\<forall>c. B_useTheme (Some c) = Inr c)"
  by (simp add: A_useTheme_def B_useTheme_def)

section \<open>The resolved value before mount\<close>


section \<open>A forced override\<close>

lemma A_getSystemTheme_applyTheme [simp]:
  "A_getSystemTheme (A_applyTheme t a dt e) = A_getSystemTheme e"
  by (simp add: A_getSystemTheme_def A_applyTheme_def A_suppress_def setTimeout_def Let_def
      split: option.splits prod.splits)

lemma A_getSystemTheme_setCookie [simp]:
  "A_getSystemTheme (A_setCookie n v e) = A_getSystemTheme e"
  by (simp add: A_getSystemTheme_def A_setCookie_def split: option.splits)

lemma A_getSystemTheme_save [simp]:
  "A_getSystemTheme (save k v e) = A_getSystemTheme e"
  by (simp add: A_getSystemTheme_def save_def split: option.splits)

lemma A_getSystemTheme_prefers [simp]:
  "A_getSystemTheme (Some (b\<lparr>prefers_dark := m\<rparr>)) = (if m then RDark else RLight)"
  by (simp add: A_getSystemTheme_def)
lemma forced_inv_start:
  "forcedTheme p = Some f \<Longrightarrow> forced_inv f (A_start p e)"
  by (cases f) (simp_all add: forced_inv_def A_start_def A_mount_def A_init_def
      A_system_or_read_def Let_def)

lemma forced_inv_step:
  "forcedTheme p = Some f \<Longrightarrow> forced_inv f se \<Longrightarrow> forced_inv f (A_step p ev se)"
proof (cases ev)
  case (SetTheme v)
  assume "forcedTheme p = Some f" "forced_inv f se"
  with SetTheme show ?thesis by (simp add: A_setTheme_def split: prod.splits)
next
  case (MediaChange m)
  assume "forcedTheme p = Some f" "forced_inv f se"
  with MediaChange show ?thesis
    by (cases f; cases se)
      (simp_all add: forced_inv_def A_media_change_def A_handleChange_def Let_def
        split: option.splits)
qed

lemma forced_inv_foldl:
  "forcedTheme p = Some f \<Longrightarrow> forced_inv f se \<Longrightarrow>
   forced_inv f (foldl (\<lambda>se ev. A_step p ev se) se evs)"
  by (induction evs arbitrary: se) (simp_all add: forced_inv_step)

text \<open>
  Claim C5, as stated: with an override configured, the resolved value always equals the
  override. The override may be \<open>system\<close>; the resolved value then follows the
  ambient value, and two environments give two resolved values under one override.
\<close>

theorem forced_system_follows_ambient:
  "resolvedTheme (fst (A_run (A_default_props\<lparr>forcedTheme := Some System\<rparr>) [SetTheme Light]
       (Some blank_browser)))
   \<noteq> resolvedTheme (fst (A_run (A_default_props\<lparr>forcedTheme := Some System\<rparr>) [SetTheme Light]
       (Some (blank_browser\<lparr>prefers_dark := True\<rparr>))))"
  by (simp add: A_run_def A_start_def A_mount_def A_init_def A_setTheme_def A_default_props_def
      A_system_or_read_def A_getSystemTheme_def blank_browser_def Let_def)

text \<open>
  Claim C5, amended: with an override configured, the setter returns at once, leaving
  the provider's state and the environment (storage, cookie, document) as they are; and
  after any sequence of setter calls and ambient changes the exposed declared preference
  is the override and the resolved value is the override's resolution: the override
  itself when it is \<open>light\<close> or \<open>dark\<close>, the current ambient value when it is
  \<open>system\<close>.
\<close>

theorem forced_setTheme_noop:
  assumes "forcedTheme p = Some f"
  shows "A_setTheme p v (s, e) = (s, e)
    \<and> resolvedTheme (fst (A_run p evs e0)) =
        resolve_declared f (A_getSystemTheme (snd (A_run p evs e0)))
    \<and> ctx_theme (A_context_value p (fst (A_run p evs e0))) = f"
proof -
  have "forced_inv f (A_run p evs e0)"
    unfolding A_run_def using assms by (intro forced_inv_foldl forced_inv_start)
  then show ?thesis using assms
    by (simp add: forced_inv_def A_setTheme_def A_context_value_def split: prod.splits)
qed

theorem forced_setTheme_noop_witness:
  "forcedTheme (A_default_props\<lparr>forcedTheme := Some Light\<rparr>) = Some Light
   \<and> A_setTheme (A_default_props\<lparr>forcedTheme := Some Light\<rparr>) Dark
        (A_init A_default_props None, Some blank_browser)
      = (A_init A_default_props None, Some blank_browser)
   \<and> resolvedTheme (fst (A_run (A_default_props\<lparr>forcedTheme := Some Light\<rparr>)
        [SetTheme Dark, MediaChange True] (Some blank_browser))) = RLight"
  using forced_setTheme_noop [of "A_default_props\<lparr>forcedTheme := Some Light\<rparr>" Light Dark
      "A_init A_default_props None" "Some blank_browser" "[SetTheme Dark, MediaChange True]"
      "Some blank_browser"]
  by simp

section \<open>Calling the setter twice\<close>

lemma classList_set_twice:
  "classList d' = classList (classList_add x (classList_remove [''light'', ''dark''] d)) \<Longrightarrow>
   classList (classList_add x (classList_remove [''light'', ''dark''] d'))
     = classList (classList_add x (classList_remove [''light'', ''dark''] d))"
  by (auto simp: classList_add_def classList_remove_def filter_id_conv)

lemma A_set_marker_twice:
  "marker d' = marker (A_set_marker t a d) \<Longrightarrow>
   marker (A_set_marker t a d') = marker (A_set_marker t a d)"
proof (cases a)
  case Class
  assume m: "marker d' = marker (A_set_marker t a d)"
  with Class have "classList d'
      = classList (classList_add (resolved_str t) (classList_remove [''light'', ''dark''] d))"
    by (simp add: marker_def A_set_marker_def)
  from classList_set_twice [OF this] m Class show ?thesis
    by (simp add: marker_def A_set_marker_def classList_add_def classList_remove_def)
next
  case DataTheme
  assume "marker d' = marker (A_set_marker t a d)"
  with DataTheme show ?thesis
    by (simp add: marker_def A_set_marker_def setAttribute_def)
qed

lemma A_applyTheme_Some:
  "\<exists>b'. A_applyTheme t a dt (Some b) = Some b'
     \<and> marker (document b') = marker (A_set_marker t a (document b))
     \<and> localStorage b' = localStorage b \<and> setItem_throws b' = setItem_throws b
     \<and> prefers_dark b' = prefers_dark b
     \<and> cookies (document b') = cookies (document b)
     \<and> length (head (document b')) = (if dt then Suc (length (head (document b)))
                                       else length (head (document b)))"
  by (cases a)
    (simp_all add: A_applyTheme_def A_suppress_def appendStyle_def getComputedStyle_def
      setTimeout_def A_set_marker_def marker_def classList_add_def classList_remove_def
      setAttribute_def Let_def)

lemma A_setTheme_Some:
  assumes "forcedTheme p = None"
  shows "\<exists>b'. A_setTheme p v (s, Some b)
        = (s\<lparr>theme := v,
              resolvedTheme := resolve_declared v (A_system_or_read s (Some b))\<rparr>, Some b')
     \<and> marker (document b')
        = marker (A_set_marker (resolve_declared v (A_system_or_read s (Some b))) (attribute p)
            (document b))
     \<and> localStorage b' = (if setItem_throws b then localStorage b
                           else (localStorage b)(storageKey p \<mapsto> theme_str v))
     \<and> setItem_throws b' = setItem_throws b
     \<and> prefers_dark b' = prefers_dark b
     \<and> cookies (document b')
        = (if enableCookieStorage p
           then (cookies (document b))(cookieName p \<mapsto>
              \<lparr>c_value = resolved_str (resolve_declared v (A_system_or_read s (Some b))),
               c_path = ''/'', c_max_age = 31536000, c_same_site = ''Lax''\<rparr>)
           else cookies (document b))
     \<and> length (head (document b'))
        = (if disableTransitionOnChange p then Suc (length (head (document b)))
           else length (head (document b)))"
proof -
  let ?r = "resolve_declared v (A_system_or_read s (Some b))"
  obtain b1 where b1: "A_applyTheme ?r (attribute p) (disableTransitionOnChange p) (Some b)
      = Some b1"
    and m1: "marker (document b1) = marker (A_set_marker ?r (attribute p) (document b))"
    and r1: "localStorage b1 = localStorage b" "setItem_throws b1 = setItem_throws b"
      "prefers_dark b1 = prefers_dark b" "cookies (document b1) = cookies (document b)"
      "length (head (document b1)) = (if disableTransitionOnChange p
          then Suc (length (head (document b))) else length (head (document b)))"
    using A_applyTheme_Some [of ?r "attribute p" "disableTransitionOnChange p" b] by blast
  have res: "(case v of System \<Rightarrow> A_system_or_read s (Some b) | Light \<Rightarrow> RLight | Dark \<Rightarrow> RDark)
      = ?r"
    by (cases v) simp_all
  show ?thesis
    using assms m1 r1
    by (simp add: A_setTheme_def Let_def res b1 save_def A_setCookie_def marker_def)
qed

lemma A_system_or_read_frame:
  "systemTheme s' = systemTheme s \<Longrightarrow> prefers_dark b' = prefers_dark b \<Longrightarrow>
   A_system_or_read s' (Some b') = A_system_or_read s (Some b)"
  by (simp add: A_system_or_read_def A_getSystemTheme_def split: option.splits)

lemma A_setTheme_twice_Some:
  assumes f: "forcedTheme p = None"
  shows "\<exists>s1 b1 b2. A_setTheme p v (s, Some b) = (s1, Some b1)
     \<and> A_setTheme p v (s1, Some b1) = (s1, Some b2)
     \<and> marker (document b2) = marker (document b1)
     \<and> localStorage b2 = localStorage b1
     \<and> cookies (document b2) = cookies (document b1)
     \<and> length (head (document b2))
        = (if disableTransitionOnChange p then Suc (length (head (document b1)))
           else length (head (document b1)))"
proof -
  let ?r = "resolve_declared v (A_system_or_read s (Some b))"
  let ?s1 = "s\<lparr>theme := v, resolvedTheme := ?r\<rparr>"
  from A_setTheme_Some [OF f, of v s b] obtain b1 where
    1: "A_setTheme p v (s, Some b) = (?s1, Some b1)"
    and m1: "marker (document b1) = marker (A_set_marker ?r (attribute p) (document b))"
    and l1: "localStorage b1 = (if setItem_throws b then localStorage b
                           else (localStorage b)(storageKey p \<mapsto> theme_str v))"
    and t1: "setItem_throws b1 = setItem_throws b" "prefers_dark b1 = prefers_dark b"
    and c1: "cookies (document b1)
        = (if enableCookieStorage p
           then (cookies (document b))(cookieName p \<mapsto>
              \<lparr>c_value = resolved_str ?r,
               c_path = ''/'', c_max_age = 31536000, c_same_site = ''Lax''\<rparr>)
           else cookies (document b))"
    by blast
  have r: "resolve_declared v (A_system_or_read ?s1 (Some b1)) = ?r"
    using A_system_or_read_frame [of ?s1 s b1 b] t1 by simp
  from A_setTheme_Some [OF f, of v ?s1 b1] r obtain b2 where
    2: "A_setTheme p v (?s1, Some b1) = (?s1, Some b2)"
    and m2: "marker (document b2) = marker (A_set_marker ?r (attribute p) (document b1))"
    and l2: "localStorage b2 = (if setItem_throws b1 then localStorage b1
                           else (localStorage b1)(storageKey p \<mapsto> theme_str v))"
    and c2: "cookies (document b2)
        = (if enableCookieStorage p
           then (cookies (document b1))(cookieName p \<mapsto>
              \<lparr>c_value = resolved_str ?r,
               c_path = ''/'', c_max_age = 31536000, c_same_site = ''Lax''\<rparr>)
           else cookies (document b1))"
    and h2: "length (head (document b2))
        = (if disableTransitionOnChange p then Suc (length (head (document b1)))
           else length (head (document b1)))"
    by auto
  have "marker (document b2) = marker (document b1)"
    using A_set_marker_twice [OF m1] m1 m2 by simp
  moreover have "localStorage b2 = localStorage b1" using l1 l2 t1 by simp
  moreover have "cookies (document b2) = cookies (document b1)" using c1 c2 by simp
  ultimately show ?thesis using 1 2 h2 by blast
qed
lemma B_updateTheme_twice:
  assumes m: "marker d' = marker (B_updateTheme q x d)"
  shows "marker (B_updateTheme q x d') = marker (B_updateTheme q x d)"
proof (cases "b_attribute q = ''class''")
  case True
  with m have "classList d'
      = classList (classList_add x (classList_remove [''light'', ''dark''] d))"
    by (simp add: marker_def B_updateTheme_def Let_def)
  from classList_set_twice [OF this] m True show ?thesis
    by (simp add: marker_def B_updateTheme_def Let_def classList_add_def classList_remove_def)
next
  case False
  with m show ?thesis
    by (simp add: marker_def B_updateTheme_def Let_def setAttribute_def classList_remove_def)
qed

lemma B_updateTheme_marker_cong:
  "marker d' = marker d \<Longrightarrow> marker (B_updateTheme q x d') = marker (B_updateTheme q x d)"
  by (simp add: marker_def B_updateTheme_def Let_def setAttribute_def classList_remove_def
      classList_add_def)

lemma marker_animations [simp]: "marker (d\<lparr>animations := a\<rparr>) = marker d"
  by (simp add: marker_def)

lemma marker_run_transitions:
  "marker d' = marker d \<Longrightarrow>
   marker (run_transitions q ts d') = marker (run_transitions q ts d)"
proof (induction ts arbitrary: d d')
  case Nil
  then show ?case by simp
next
  case (Cons t ts)
  have "marker (B_updateTheme q (vt_update t) d') = marker (B_updateTheme q (vt_update t) d)"
    using Cons.prems by (rule B_updateTheme_marker_cong)
  then show ?case
    by (cases "vt_on_ready t") (auto simp: Let_def intro!: Cons.IH)
qed

lemma run_transitions_append:
  "run_transitions q (ts @ us) d = run_transitions q us (run_transitions q ts d)"
  by (induction ts arbitrary: d) (simp_all add: Let_def)

lemma run_transition_twice:
  "marker (run_transitions q [t, t] d) = marker (run_transitions q [t] d)"
proof -
  have "marker (B_updateTheme q (vt_update t) (run_transitions q [t] d))
      = marker (B_updateTheme q (vt_update t) d)"
    by (rule B_updateTheme_twice [where d = d]) (cases "vt_on_ready t"; simp add: Let_def)
  then show ?thesis
    by (cases "vt_on_ready t") (simp_all add: Let_def)
qed
lemma B_applyTheme_fallback:
  assumes "\<not> (enableViewTransitions q \<and> has_startViewTransition b)"
  shows "\<exists>b'. B_applyTheme q r c (Some b) = Inr (Some b')
     \<and> localStorage b' = localStorage b \<and> setItem_throws b' = setItem_throws b
     \<and> prefers_dark b' = prefers_dark b
     \<and> has_startViewTransition b' = has_startViewTransition b
     \<and> innerWidth b' = innerWidth b \<and> innerHeight b' = innerHeight b
     \<and> transitions b' = transitions b
     \<and> marker (document b') = marker (B_updateTheme q r (document b))
     \<and> length (head (document b'))
        = (if b_disableTransitionOnChange q then Suc (length (head (document b)))
           else length (head (document b)))"
proof (cases "b_disableTransitionOnChange q")
  case True
  have m: "marker (B_updateTheme q r (getComputedStyle (snd (appendStyle transition_none_css
      (document b))))) = marker (B_updateTheme q r (document b))"
    by (rule B_updateTheme_marker_cong)
      (simp add: marker_def getComputedStyle_def appendStyle_def)
  have h: "head (B_updateTheme q r d) = head d" for d
    by (simp add: B_updateTheme_def Let_def classList_add_def classList_remove_def
        setAttribute_def)
  from assms True m show ?thesis
    by (simp add: B_applyTheme_def B_suppress_def setTimeout_def Let_def h
        split: prod.splits)
      (simp add: appendStyle_def getComputedStyle_def)
next
  case False
  with assms show ?thesis
    by (simp add: B_applyTheme_def Let_def B_updateTheme_def classList_add_def
        classList_remove_def setAttribute_def)
qed

lemma B_applyTheme_transition:
  assumes "enableViewTransitions q" "has_startViewTransition b"
  shows "B_applyTheme q r c (Some b)
     = Inr (Some (b\<lparr>transitions := transitions b @ [\<lparr>vt_update = r, vt_on_ready = reveal c b\<rparr>]\<rparr>))"
  using assms
  by (cases c)
    (auto simp: B_applyTheme_def startViewTransition_def reveal_def Let_def)
lemma B_setTheme_Some:
  "\<exists>b'. B_setTheme q v c (s, Some b)
       = Inr (s\<lparr>b_theme := theme_str v,
                 b_resolvedTheme := B_resolveTheme (Some b) (theme_str v)\<rparr>, Some b')
     \<and> localStorage b' = (if setItem_throws b then localStorage b
                           else (localStorage b)(b_storageKey q \<mapsto> theme_str v))
     \<and> setItem_throws b' = setItem_throws b
     \<and> prefers_dark b' = prefers_dark b
     \<and> has_startViewTransition b' = has_startViewTransition b
     \<and> innerWidth b' = innerWidth b \<and> innerHeight b' = innerHeight b
     \<and> (if enableViewTransitions q \<and> has_startViewTransition b
        then document b' = document b
           \<and> transitions b' = transitions b
                @ [\<lparr>vt_update = B_resolveTheme (Some b) (theme_str v), vt_on_ready = reveal c b\<rparr>]
        else transitions b' = transitions b
           \<and> marker (document b')
              = marker (B_updateTheme q (B_resolveTheme (Some b) (theme_str v)) (document b))
           \<and> length (head (document b'))
              = (if b_disableTransitionOnChange q then Suc (length (head (document b)))
                 else length (head (document b))))"
proof -
  let ?r = "B_resolveTheme (Some b) (theme_str v)"
  define b0 where "b0 = (if setItem_throws b then b
     else b\<lparr>localStorage := (localStorage b)(b_storageKey q \<mapsto> theme_str v)\<rparr>)"
  have sv: "save (b_storageKey q) (theme_str v) (Some b) = Some b0"
    by (simp add: save_def b0_def)
  have fr: "prefers_dark b0 = prefers_dark b" "setItem_throws b0 = setItem_throws b"
    "has_startViewTransition b0 = has_startViewTransition b" "document b0 = document b"
    "transitions b0 = transitions b" "innerWidth b0 = innerWidth b"
    "innerHeight b0 = innerHeight b"
    "localStorage b0 = (if setItem_throws b then localStorage b
                           else (localStorage b)(b_storageKey q \<mapsto> theme_str v))"
    by (simp_all add: b0_def)
  have r0: "B_resolveTheme (Some b0) (theme_str v) = ?r"
    by (simp add: B_resolveTheme_def B_getSystemTheme_def fr)
  have rv: "reveal c b0 = reveal c b"
    by (simp add: reveal_def fr split: option.splits)
  show ?thesis
  proof (cases "enableViewTransitions q \<and> has_startViewTransition b")
    case True
    then have "B_applyTheme q ?r c (Some b0)
        = Inr (Some (b0\<lparr>transitions := transitions b0
             @ [\<lparr>vt_update = ?r, vt_on_ready = reveal c b0\<rparr>]\<rparr>))"
      by (intro B_applyTheme_transition) (simp_all add: fr)
    with True show ?thesis
      by (simp add: B_setTheme_def Let_def sv r0 rv fr)
  next
    case False
    then have "\<not> (enableViewTransitions q \<and> has_startViewTransition b0)"
      by (simp add: fr)
    from B_applyTheme_fallback [OF this, of ?r c] obtain b' where
      "B_applyTheme q ?r c (Some b0) = Inr (Some b')"
      "localStorage b' = localStorage b0" "setItem_throws b' = setItem_throws b0"
      "prefers_dark b' = prefers_dark b0"
      "has_startViewTransition b' = has_startViewTransition b0"
      "innerWidth b' = innerWidth b0" "innerHeight b' = innerHeight b0"
      "transitions b' = transitions b0"
      "marker (document b') = marker (B_updateTheme q ?r (document b0))"
      "length (head (document b'))
        = (if b_disableTransitionOnChange q then Suc (length (head (document b0)))
           else length (head (document b0)))"
      by blast
    with False show ?thesis
      by (simp add: B_setTheme_def Let_def sv r0 fr)
  qed
qed
lemma B_resolveTheme_frame:
  "prefers_dark b' = prefers_dark b \<Longrightarrow> B_resolveTheme (Some b') x = B_resolveTheme (Some b) x"
  by (simp add: B_resolveTheme_def B_getSystemTheme_def)

lemma reveal_frame:
  "innerWidth b' = innerWidth b \<Longrightarrow> innerHeight b' = innerHeight b \<Longrightarrow>
   reveal c b' = reveal c b"
  by (simp add: reveal_def split: option.splits)

lemma B_setTheme_twice_Some:
  "\<exists>s1 b1 b2. B_setTheme q v c (s, Some b) = Inr (s1, Some b1)
     \<and> B_setTheme q v c (s1, Some b1) = Inr (s1, Some b2)
     \<and> localStorage b2 = localStorage b1
     \<and> marker (document (settle q b2)) = marker (document (settle q b1))
     \<and> (if enableViewTransitions q \<and> has_startViewTransition b
        then length (transitions b2) = Suc (length (transitions b1))
        else length (head (document b2))
             = (if b_disableTransitionOnChange q then Suc (length (head (document b1)))
                else length (head (document b1))))"
proof -
  let ?r = "B_resolveTheme (Some b) (theme_str v)"
  let ?s1 = "s\<lparr>b_theme := theme_str v, b_resolvedTheme := ?r\<rparr>"
  let ?t = "\<lparr>vt_update = ?r, vt_on_ready = reveal c b\<rparr>"
  let ?vt = "enableViewTransitions q \<and> has_startViewTransition b"
  obtain b1 where H1: "B_setTheme q v c (s, Some b) = Inr (?s1, Some b1)
     \<and> localStorage b1 = (if setItem_throws b then localStorage b
                           else (localStorage b)(b_storageKey q \<mapsto> theme_str v))
     \<and> setItem_throws b1 = setItem_throws b
     \<and> prefers_dark b1 = prefers_dark b
     \<and> has_startViewTransition b1 = has_startViewTransition b
     \<and> innerWidth b1 = innerWidth b \<and> innerHeight b1 = innerHeight b
     \<and> (if ?vt
        then document b1 = document b \<and> transitions b1 = transitions b @ [?t]
        else transitions b1 = transitions b
           \<and> marker (document b1) = marker (B_updateTheme q ?r (document b))
           \<and> length (head (document b1))
              = (if b_disableTransitionOnChange q then Suc (length (head (document b)))
                 else length (head (document b))))"
    using B_setTheme_Some [of q v c s b] ..
  from H1 have 1: "B_setTheme q v c (s, Some b) = Inr (?s1, Some b1)" by (rule conjunct1)
  from H1 have l1: "localStorage b1 = (if setItem_throws b then localStorage b
                           else (localStorage b)(b_storageKey q \<mapsto> theme_str v))"
    and f1: "setItem_throws b1 = setItem_throws b" "prefers_dark b1 = prefers_dark b"
      "has_startViewTransition b1 = has_startViewTransition b"
      "innerWidth b1 = innerWidth b" "innerHeight b1 = innerHeight b"
    by blast+
  have r1: "B_resolveTheme (Some b1) (theme_str v) = ?r"
    using f1 by (intro B_resolveTheme_frame) simp
  have v1: "reveal c b1 = reveal c b"
    using f1 by (intro reveal_frame) simp_all
  have s1: "?s1\<lparr>b_theme := theme_str v, b_resolvedTheme := ?r\<rparr> = ?s1" by simp
  obtain b2 where H2: "B_setTheme q v c (?s1, Some b1) = Inr (?s1, Some b2)
     \<and> localStorage b2 = (if setItem_throws b1 then localStorage b1
                           else (localStorage b1)(b_storageKey q \<mapsto> theme_str v))
     \<and> setItem_throws b2 = setItem_throws b1
     \<and> prefers_dark b2 = prefers_dark b1
     \<and> has_startViewTransition b2 = has_startViewTransition b1
     \<and> innerWidth b2 = innerWidth b1 \<and> innerHeight b2 = innerHeight b1
     \<and> (if enableViewTransitions q \<and> has_startViewTransition b1
        then document b2 = document b1 \<and> transitions b2 = transitions b1 @ [?t]
        else transitions b2 = transitions b1
           \<and> marker (document b2) = marker (B_updateTheme q ?r (document b1))
           \<and> length (head (document b2))
              = (if b_disableTransitionOnChange q then Suc (length (head (document b1)))
                 else length (head (document b1))))"
    using B_setTheme_Some [of q v c ?s1 b1, unfolded r1 v1 s1] ..
  from H2 have 2: "B_setTheme q v c (?s1, Some b1) = Inr (?s1, Some b2)" by (rule conjunct1)
  from H2 have l2: "localStorage b2 = (if setItem_throws b1 then localStorage b1
                           else (localStorage b1)(b_storageKey q \<mapsto> theme_str v))"
    by blast
  have ls: "localStorage b2 = localStorage b1"
    using l1 l2 f1 by simp
  show ?thesis
  proof (cases ?vt)
    case True
    with H1 have d1: "document b1 = document b" and t1: "transitions b1 = transitions b @ [?t]"
      by simp_all
    from True f1 have "enableViewTransitions q \<and> has_startViewTransition b1" by simp
    with H2 have d2: "document b2 = document b1" and t2: "transitions b2 = transitions b1 @ [?t]"
      by simp_all
    have "marker (run_transitions q [?t, ?t] (run_transitions q (transitions b) (document b)))
        = marker (run_transitions q [?t] (run_transitions q (transitions b) (document b)))"
      by (rule run_transition_twice)
    then have "marker (document (settle q b2)) = marker (document (settle q b1))"
      by (simp add: settle_def d1 d2 t1 t2 run_transitions_append del: run_transitions.simps)
    moreover have "length (transitions b2) = Suc (length (transitions b1))"
      by (simp add: t2)
    ultimately have "B_setTheme q v c (s, Some b) = Inr (?s1, Some b1)
     \<and> B_setTheme q v c (?s1, Some b1) = Inr (?s1, Some b2)
     \<and> localStorage b2 = localStorage b1
     \<and> marker (document (settle q b2)) = marker (document (settle q b1))
     \<and> (if ?vt
        then length (transitions b2) = Suc (length (transitions b1))
        else length (head (document b2))
             = (if b_disableTransitionOnChange q then Suc (length (head (document b1)))
                else length (head (document b1))))"
      using True 1 2 ls by simp
    then show ?thesis by (intro exI)
  next
    case False
    with H1 have t1: "transitions b1 = transitions b"
      and m1: "marker (document b1) = marker (B_updateTheme q ?r (document b))"
      by simp_all
    from False f1 have "\<not> (enableViewTransitions q \<and> has_startViewTransition b1)" by simp
    with H2 have t2: "transitions b2 = transitions b1"
      and m2: "marker (document b2) = marker (B_updateTheme q ?r (document b1))"
      and h: "length (head (document b2))
              = (if b_disableTransitionOnChange q then Suc (length (head (document b1)))
                 else length (head (document b1)))"
      by simp_all
    have "marker (document b2) = marker (document b1)"
      using B_updateTheme_twice [OF m1] m1 m2 by simp
    then have "marker (run_transitions q (transitions b1) (document b2))
        = marker (run_transitions q (transitions b1) (document b1))"
      by (rule marker_run_transitions)
    then have "marker (document (settle q b2)) = marker (document (settle q b1))"
      by (simp add: settle_def t2)
    moreover note h
    ultimately have "B_setTheme q v c (s, Some b) = Inr (?s1, Some b1)
     \<and> B_setTheme q v c (?s1, Some b1) = Inr (?s1, Some b2)
     \<and> localStorage b2 = localStorage b1
     \<and> marker (document (settle q b2)) = marker (document (settle q b1))
     \<and> (if ?vt
        then length (transitions b2) = Suc (length (transitions b1))
        else length (head (document b2))
             = (if b_disableTransitionOnChange q then Suc (length (head (document b1)))
                else length (head (document b1))))"
      using False 1 2 ls by auto
    then show ?thesis by (intro exI)
  qed
qed
lemma A_setTheme_twice_None:
  "forcedTheme p = None \<Longrightarrow>
   \<exists>s1. A_setTheme p v (s, None) = (s1, None) \<and> A_setTheme p v (s1, None) = (s1, None)"
  by (cases v)
    (simp_all add: A_setTheme_def A_applyTheme_def save_def A_setCookie_def Let_def
      A_system_or_read_def)

text \<open>
  Claim C4, as stated: the second of two equal setter calls is a no-op on the render
  surface. With the default props of the first provider, the document head holds one
  suppression style element after the first call and two after the second.
\<close>

theorem setTheme_second_call_appends_style:
  "head (document (the (snd (A_setTheme A_default_props Dark
      (A_setTheme A_default_props Dark
        (A_init A_default_props (Some blank_browser), Some blank_browser))))))
     = [(0, transition_none_css), (1, transition_none_css)]
   \<and> head (document (the (snd (A_setTheme A_default_props Dark
        (A_init A_default_props (Some blank_browser), Some blank_browser)))))
     = [(0, transition_none_css)]"
  by (simp add: A_setTheme_def A_default_props_def A_applyTheme_def A_suppress_def
      appendStyle_def getComputedStyle_def setTimeout_def A_set_marker_def classList_add_def
      classList_remove_def save_def blank_browser_def blank_dom_def Let_def)

text \<open>
  Claim C4, amended: after a second call of the setter with the same argument, the
  provider's state, the stored preference, the cookie and the root marker are as after
  the first call (in the second provider: the marker once the queued transitions have
  run). The setter does not compare the resolved value with the previous one and runs
  the applier on every call: with transition suppression on, the second call appends
  one more suppression style element, and with view transitions it queues one more
  transition.
\<close>

theorem setter_called_twice:
  "(let r1 = A_setTheme p v (s, e); r2 = A_setTheme p v r1 in
      fst r2 = fst r1
      \<and> map_option (marker \<circ> document) (snd r2) = map_option (marker \<circ> document) (snd r1)
      \<and> map_option localStorage (snd r2) = map_option localStorage (snd r1)
      \<and> map_option (cookies \<circ> document) (snd r2) = map_option (cookies \<circ> document) (snd r1)
      \<and> map_option (length \<circ> head \<circ> document) (snd r2)
          = map_option
              ((if forcedTheme p = None \<and> disableTransitionOnChange p then Suc else id)
                \<circ> length \<circ> head \<circ> document) (snd r1))
   \<and> (\<exists>s1 b1 b2. B_setTheme q v c (t, Some b) = Inr (s1, Some b1)
        \<and> B_setTheme q v c (s1, Some b1) = Inr (s1, Some b2)
        \<and> localStorage b2 = localStorage b1
        \<and> marker (document (settle q b2)) = marker (document (settle q b1))
        \<and> (if enableViewTransitions q \<and> has_startViewTransition b
            then length (transitions b2) = Suc (length (transitions b1))
            else length (head (document b2))
                 = (if b_disableTransitionOnChange q then Suc (length (head (document b1)))
                    else length (head (document b1)))))"
proof (rule conjI)
  show "let r1 = A_setTheme p v (s, e); r2 = A_setTheme p v r1 in
      fst r2 = fst r1
      \<and> map_option (marker \<circ> document) (snd r2) = map_option (marker \<circ> document) (snd r1)
      \<and> map_option localStorage (snd r2) = map_option localStorage (snd r1)
      \<and> map_option (cookies \<circ> document) (snd r2) = map_option (cookies \<circ> document) (snd r1)
      \<and> map_option (length \<circ> head \<circ> document) (snd r2)
          = map_option
              ((if forcedTheme p = None \<and> disableTransitionOnChange p then Suc else id)
                \<circ> length \<circ> head \<circ> document) (snd r1)"
  proof (cases "forcedTheme p")
    case (Some f)
    then have "A_setTheme p v se = se" for se
      by (cases se) (simp add: A_setTheme_def)
    with Some show ?thesis by (simp add: Let_def)
  next
    case None
    show ?thesis
    proof (cases e)
      case N: None
      from A_setTheme_twice_None [OF None, of v s] obtain s1 where
        "A_setTheme p v (s, None) = (s1, None)" "A_setTheme p v (s1, None) = (s1, None)"
        by blast
      with N show ?thesis by (simp add: Let_def)
    next
      case (Some b0)
      from A_setTheme_twice_Some [OF None, of v s b0] obtain s1 b1 b2 where
        "A_setTheme p v (s, Some b0) = (s1, Some b1)"
        "A_setTheme p v (s1, Some b1) = (s1, Some b2)"
        "marker (document b2) = marker (document b1)"
        "localStorage b2 = localStorage b1"
        "cookies (document b2) = cookies (document b1)"
        "length (head (document b2))
          = (if disableTransitionOnChange p then Suc (length (head (document b1)))
             else length (head (document b1)))"
        by blast
      with Some None show ?thesis by (simp add: Let_def)
    qed
  qed
next
  show "\<exists>s1 b1 b2. B_setTheme q v c (t, Some b) = Inr (s1, Some b1)
        \<and> B_setTheme q v c (s1, Some b1) = Inr (s1, Some b2)
        \<and> localStorage b2 = localStorage b1
        \<and> marker (document (settle q b2)) = marker (document (settle q b1))
        \<and> (if enableViewTransitions q \<and> has_startViewTransition b
            then length (transitions b2) = Suc (length (transitions b1))
            else length (head (document b2))
                 = (if b_disableTransitionOnChange q then Suc (length (head (document b1)))
                    else length (head (document b1))))"
    by (rule B_setTheme_twice_Some)
qed

theorem setter_called_twice_witness:
  "forcedTheme A_default_props = None \<and> disableTransitionOnChange A_default_props
   \<and> map_option (marker \<circ> document)
        (snd (A_setTheme A_default_props Dark (A_setTheme A_default_props Dark
          (A_init A_default_props (Some blank_browser), Some blank_browser))))
      = map_option (marker \<circ> document)
        (snd (A_setTheme A_default_props Dark
          (A_init A_default_props (Some blank_browser), Some blank_browser)))
   \<and> map_option (length \<circ> head \<circ> document)
        (snd (A_setTheme A_default_props Dark (A_setTheme A_default_props Dark
          (A_init A_default_props (Some blank_browser), Some blank_browser))))
      = map_option (Suc \<circ> length \<circ> head \<circ> document)
        (snd (A_setTheme A_default_props Dark
          (A_init A_default_props (Some blank_browser), Some blank_browser)))"
proof -
  have h: "forcedTheme A_default_props = None" "disableTransitionOnChange A_default_props"
    by (simp_all add: A_default_props_def)
  show ?thesis
    using h setter_called_twice [of A_default_props Dark
        "A_init A_default_props (Some blank_browser)" "Some blank_browser"
        B_default_props "Some (3, 4)" "\<lparr>b_theme = ''light'', b_resolvedTheme = ''light'',
          mounted = True\<rparr>" blank_browser]
    by (simp add: Let_def)
qed

section \<open>The circular reveal\<close>

lemma max_side_sq:
  fixes x w :: real
  assumes "0 \<le> w"
  shows "x\<^sup>2 \<le> (max x (w - x))\<^sup>2" "(x - w)\<^sup>2 \<le> (max x (w - x))\<^sup>2"
    "(max x (w - x))\<^sup>2 = x\<^sup>2 \<or> (max x (w - x))\<^sup>2 = (x - w)\<^sup>2"
proof -
  have "\<bar>x\<bar> \<le> max x (w - x)" "\<bar>x - w\<bar> \<le> max x (w - x)"
    using assms by (auto simp: max_def)
  then show "x\<^sup>2 \<le> (max x (w - x))\<^sup>2" "(x - w)\<^sup>2 \<le> (max x (w - x))\<^sup>2"
    by (simp_all add: abs_le_square_iff [symmetric])
  show "(max x (w - x))\<^sup>2 = x\<^sup>2 \<or> (max x (w - x))\<^sup>2 = (x - w)\<^sup>2"
    by (simp add: max_def power2_commute)
qed

lemma hypot_farthest_corner:
  assumes "0 \<le> w" "0 \<le> h"
  shows "hypot (max x (w - x)) (max y (h - y)) = farthest_corner x y w h"
proof -
  let ?a = "max x (w - x)" and ?c = "max y (h - y)"
  let ?S = "distance (x, y) ` set (viewport_corners w h)"
  have S: "?S = {sqrt (x\<^sup>2 + y\<^sup>2), sqrt ((x - w)\<^sup>2 + y\<^sup>2), sqrt (x\<^sup>2 + (y - h)\<^sup>2),
      sqrt ((x - w)\<^sup>2 + (y - h)\<^sup>2)}"
    by (simp add: viewport_corners_def distance_def)
  have le: "d \<le> sqrt (?a\<^sup>2 + ?c\<^sup>2)" if "d \<in> ?S" for d
    using that max_side_sq(1,2) [OF assms(1), of x] max_side_sq(1,2) [OF assms(2), of y]
    unfolding S by (auto intro!: real_sqrt_le_mono add_mono)
  have mem: "sqrt (?a\<^sup>2 + ?c\<^sup>2) \<in> ?S"
    using max_side_sq(3) [OF assms(1), of x] max_side_sq(3) [OF assms(2), of y]
    unfolding S by auto
  have "Max ?S = sqrt (?a\<^sup>2 + ?c\<^sup>2)"
    by (rule Max_eqI) (use le mem in auto)
  then show ?thesis by (simp add: hypot_def farthest_corner_def)
qed

lemma animations_B_updateTheme [simp]: "animations (B_updateTheme p t d) = animations d"
  by (simp add: B_updateTheme_def Let_def classList_add_def classList_remove_def
      setAttribute_def)

text \<open>
  Claim C7. With view transitions enabled and available and a click at \<open>(x, y)\<close>,
  \<open>applyTheme\<close> leaves the document as it is and starts a transition whose update
  callback writes the theme and whose \<open>ready\<close> continuation animates the clip path
  from a circle of radius 0 at \<open>(x, y)\<close> to a circle at \<open>(x, y)\<close> whose radius is
  the greatest distance from \<open>(x, y)\<close> to a corner of the viewport, for 500 ms with
  easing \<open>ease-in-out\<close>; that radius is
  \<open>hypot (max x (width - x)) (max y (height - y))\<close>, and the animation is started
  when the transition runs. Coordinates and lengths are real numbers, the viewport's
  width and height are not negative.
\<close>

theorem circular_reveal:
  assumes "enableViewTransitions p" "has_startViewTransition b"
    and "0 \<le> innerWidth b" "0 \<le> innerHeight b"
  shows "\<exists>b'. B_applyTheme p t (Some (x, y)) (Some b) = Inr (Some b')
    \<and> document b' = document b
    \<and> transitions b' = transitions b @
        [\<lparr>vt_update = t,
          vt_on_ready = Some
            \<lparr>clip_from = Circle 0 x y,
             clip_to = Circle (farthest_corner x y (innerWidth b) (innerHeight b)) x y,
             duration = 500, easing = ''ease-in-out'',
             pseudoElement = ''::view-transition-new(root)''\<rparr>\<rparr>]
    \<and> farthest_corner x y (innerWidth b) (innerHeight b)
        = hypot (max x (innerWidth b - x)) (max y (innerHeight b - y))
    \<and> animations (document (settle p b'))
        = animations (document (settle p b)) @
            [\<lparr>clip_from = Circle 0 x y,
              clip_to = Circle (farthest_corner x y (innerWidth b) (innerHeight b)) x y,
              duration = 500, easing = ''ease-in-out'',
              pseudoElement = ''::view-transition-new(root)''\<rparr>]"
proof -
  have r: "hypot (max x (innerWidth b - x)) (max y (innerHeight b - y))
      = farthest_corner x y (innerWidth b) (innerHeight b)"
    using assms(3,4) by (rule hypot_farthest_corner)
  show ?thesis
    using assms(1,2)
    by (simp add: B_applyTheme_transition reveal_def r settle_def run_transitions_append Let_def)
qed

theorem circular_reveal_witness:
  "enableViewTransitions B_default_props \<and> has_startViewTransition blank_browser
   \<and> 0 \<le> innerWidth blank_browser \<and> 0 \<le> innerHeight blank_browser
   \<and> (\<exists>b'. B_applyTheme B_default_props ''dark'' (Some (3, 4)) (Some blank_browser)
          = Inr (Some b')
        \<and> transitions b' =
            [\<lparr>vt_update = ''dark'',
              vt_on_ready = Some
                \<lparr>clip_from = Circle 0 3 4, clip_to = Circle (farthest_corner 3 4 6 8) 3 4,
                 duration = 500, easing = ''ease-in-out'',
                 pseudoElement = ''::view-transition-new(root)''\<rparr>\<rparr>]
        \<and> farthest_corner 3 4 6 8 = hypot 3 4)"
proof -
  have h: "enableViewTransitions B_default_props" "has_startViewTransition blank_browser"
    "0 \<le> innerWidth blank_browser" "0 \<le> innerHeight blank_browser"
    by (simp_all add: B_default_props_def blank_browser_def)
  from circular_reveal [OF h, of "''dark''" 3 4] h show ?thesis
    by (auto simp: blank_browser_def)
qed

section \<open>The suppression rule\<close>

lemma removeChild_head_subset:
  "removeChild n d = Inr d' \<Longrightarrow> set (map fst (head d')) \<subseteq> set (map fst (head d)) - {n}"
  by (auto simp: removeChild_def split: if_splits)

lemma run_timers_head_subset:
  "set (map fst (head (snd (run_timers ts d)))) \<subseteq> set (map fst (head d))"
proof (induction ts arbitrary: d)
  case Nil
  then show ?case by simp
next
  case (Cons t ts)
  obtain ms css where t: "t = (ms, css)" by (cases t)
  show ?case
  proof (cases "removeChild css d")
    case (Inl e)
    with t Cons.IH [of d] show ?thesis by (simp add: split_beta)
  next
    case (Inr d1)
    with t Cons.IH [of d1] removeChild_head_subset [OF Inr] show ?thesis by auto
  qed
qed

lemma run_timers_removes:
  "(ms, css) \<in> set ts \<Longrightarrow> css \<notin> set (map fst (head (snd (run_timers ts d))))"
proof (induction ts arbitrary: d)
  case Nil
  then show ?case by simp
next
  case (Cons t ts)
  obtain ms' css' where t: "t = (ms', css')" by (cases t)
  show ?case
  proof (cases "removeChild css' d")
    case (Inl e)
    show ?thesis
    proof (cases "css' = css")
      case True
      with Inl have "css \<notin> set (map fst (head d))"
        by (simp add: removeChild_def split: if_splits)
      with run_timers_head_subset [of ts d] have "css \<notin> set (map fst (head (snd (run_timers ts d))))"
        by blast
      with t Inl show ?thesis by (simp add: split_beta)
    next
      case False
      with Cons.prems t have "(ms, css) \<in> set ts" by auto
      from Cons.IH [OF this, of d] t Inl show ?thesis by (simp add: split_beta)
    qed
  next
    case (Inr d1)
    show ?thesis
    proof (cases "css' = css")
      case True
      with removeChild_head_subset [OF Inr] have "css \<notin> set (map fst (head d1))" by blast
      with run_timers_head_subset [of ts d1]
      have "css \<notin> set (map fst (head (snd (run_timers ts d1))))" by blast
      with t Inr show ?thesis by simp
    next
      case False
      with Cons.prems t have "(ms, css) \<in> set ts" by auto
      from Cons.IH [OF this, of d1] t Inr show ?thesis by simp
    qed
  qed
qed

lemma tick_removes:
  "(ms, css) \<in> set (timers b) \<Longrightarrow> css \<notin> set (map fst (head (document (snd (tick b)))))"
  using run_timers_removes [of ms css "timers b" "document b"]
  by (simp add: tick_def split_beta)

lemma A_setTheme_suppressed:
  assumes "forcedTheme p = None" "disableTransitionOnChange p"
  shows "\<exists>s' b'. A_setTheme p v (s, Some b) = (s', Some b')
    \<and> resolvedTheme s' = resolve_declared v (A_system_or_read s (Some b))
    \<and> calls (document b')
        = calls (document b) @ [AppendChild (next_node (document b)), GetComputedStyle]
          @ (case attribute p of
               Class \<Rightarrow> [ClassListRemove [''light'', ''dark''],
                          ClassListAdd (resolved_str (resolvedTheme s'))]
             | DataTheme \<Rightarrow> [SetAttribute ''data-theme'' (resolved_str (resolvedTheme s'))])
    \<and> head (document b') = head (document b) @ [(next_node (document b), transition_none_css)]
    \<and> computed (document b') = map fst (head (document b'))
    \<and> classList (document b')
        = (case attribute p of
             Class \<Rightarrow> filter (\<lambda>c. c \<notin> set [''light'', ''dark'']) (classList (document b))
                        @ [resolved_str (resolvedTheme s')]
           | DataTheme \<Rightarrow> classList (document b))
    \<and> attributes (document b')
        = (case attribute p of
             Class \<Rightarrow> attributes (document b)
           | DataTheme \<Rightarrow> (attributes (document b))(''data-theme'' \<mapsto> resolved_str (resolvedTheme s')))
    \<and> timers b' = timers b @ [(1, next_node (document b))]"
proof -
  let ?r = "resolve_declared v (A_system_or_read s (Some b))"
  have res: "(case v of System \<Rightarrow> A_system_or_read s (Some b) | Light \<Rightarrow> RLight | Dark \<Rightarrow> RDark)
      = ?r"
    by (cases v) simp_all
  have tok: "resolved_str ?r = ''light'' \<or> resolved_str ?r = ''dark''"
    by (cases ?r) simp_all
  show ?thesis
    using assms tok
    by (cases "attribute p")
      (simp_all add: A_setTheme_def Let_def res A_applyTheme_def A_suppress_def appendStyle_def
        getComputedStyle_def setTimeout_def A_set_marker_def classList_add_def
        classList_remove_def setAttribute_def save_def A_setCookie_def tok)
qed

lemma B_resolveTheme_typed:
  "B_resolveTheme e (theme_str v) = resolved_str (resolve_declared v (B_getSystemTheme e))"
  by (cases v) (simp_all add: B_resolveTheme_def)

lemma B_setTheme_suppressed:
  assumes "\<not> enableViewTransitions q \<or> \<not> has_startViewTransition b"
    "b_disableTransitionOnChange q"
  shows "\<exists>s' b'. B_setTheme q v c (t, Some b) = Inr (s', Some b')
    \<and> b_resolvedTheme s' = resolved_str (resolve_declared v (B_getSystemTheme (Some b)))
    \<and> calls (document b')
        = calls (document b)
          @ [AppendChild (next_node (document b)), GetComputedStyle,
             ClassListRemove [''light'', ''dark'']]
          @ (if b_attribute q = ''class'' then [ClassListAdd (b_resolvedTheme s')]
             else [SetAttribute (b_attribute q) (b_resolvedTheme s')])
    \<and> head (document b') = head (document b) @ [(next_node (document b), transition_none_css)]
    \<and> computed (document b') = map fst (head (document b'))
    \<and> classList (document b')
        = filter (\<lambda>c. c \<notin> set [''light'', ''dark'']) (classList (document b))
          @ (if b_attribute q = ''class'' then [b_resolvedTheme s'] else [])
    \<and> attributes (document b')
        = (if b_attribute q = ''class'' then attributes (document b)
           else (attributes (document b))(b_attribute q \<mapsto> b_resolvedTheme s'))
    \<and> colorScheme (document b') = Some (b_resolvedTheme s')
    \<and> timers b' = timers b @ [(1, next_node (document b))]"
proof -
  let ?r = "resolved_str (resolve_declared v (B_getSystemTheme (Some b)))"
  define b0 where "b0 = (if setItem_throws b then b
     else b\<lparr>localStorage := (localStorage b)(b_storageKey q \<mapsto> theme_str v)\<rparr>)"
  have sv: "save (b_storageKey q) (theme_str v) (Some b) = Some b0"
    by (simp add: save_def b0_def)
  have fr: "has_startViewTransition b0 = has_startViewTransition b"
    "document b0 = document b" "timers b0 = timers b" "prefers_dark b0 = prefers_dark b"
    by (simp_all add: b0_def)
  have r0: "B_resolveTheme (Some b0) (theme_str v) = ?r"
    by (simp add: B_resolveTheme_typed B_getSystemTheme_def fr)
  have tok: "?r = ''light'' \<or> ?r = ''dark''"
    by (cases "resolve_declared v (B_getSystemTheme (Some b))") simp_all
  show ?thesis
    using assms tok
    by (auto simp: B_setTheme_def Let_def sv r0 B_applyTheme_def fr B_suppress_def
        appendStyle_def getComputedStyle_def setTimeout_def B_updateTheme_def
        classList_add_def classList_remove_def setAttribute_def)
qed

lemma valid_attribute_name_data_theme: "valid_attribute_name ''data-theme''"
  by (simp add: valid_attribute_name_def name_start_char_def name_char_def)

text \<open>
  Claim C8. With transition suppression on and no view transition (the first provider
  has none; in the second they are disabled or the document lacks the capability), a
  setter call makes exactly these calls on the document, in this order: it appends the
  suppression style element, calls \<open>getComputedStyle\<close>, and then writes the marker
  (\<open>classList.remove\<close> and \<open>classList.add\<close>, or \<open>setAttribute\<close>). When it
  returns, the marker holds the resolved value, the style element is in the head, the
  styles computed last are those of that head, and one timer of 1 ms is pending for the
  element; nothing has removed it. After the pending timers have run the element is no
  longer in the head. For the second provider the attribute is \<open>class\<close> or a valid
  attribute name.
\<close>

theorem suppression_rule_lifetime:
  "(forcedTheme p = None \<and> disableTransitionOnChange p \<longrightarrow>
      (\<exists>s' b'. A_setTheme p v (s, Some b) = (s', Some b')
        \<and> resolvedTheme s' = resolve_declared v (A_system_or_read s (Some b))
        \<and> calls (document b')
            = calls (document b) @ [AppendChild (next_node (document b)), GetComputedStyle]
              @ (case attribute p of
                   Class \<Rightarrow> [ClassListRemove [''light'', ''dark''],
                              ClassListAdd (resolved_str (resolvedTheme s'))]
                 | DataTheme \<Rightarrow> [SetAttribute ''data-theme'' (resolved_str (resolvedTheme s'))])
        \<and> head (document b')
            = head (document b) @ [(next_node (document b), transition_none_css)]
        \<and> computed (document b') = map fst (head (document b'))
        \<and> classList (document b')
            = (case attribute p of
                 Class \<Rightarrow> filter (\<lambda>c. c \<notin> set [''light'', ''dark'']) (classList (document b))
                            @ [resolved_str (resolvedTheme s')]
               | DataTheme \<Rightarrow> classList (document b))
        \<and> attributes (document b')
            = (case attribute p of
                 Class \<Rightarrow> attributes (document b)
               | DataTheme \<Rightarrow>
                   (attributes (document b))(''data-theme'' \<mapsto> resolved_str (resolvedTheme s')))
        \<and> timers b' = timers b @ [(1, next_node (document b))]
        \<and> next_node (document b) \<notin> set (map fst (head (document (snd (tick b')))))))
   \<and> ((\<not> enableViewTransitions q \<or> \<not> has_startViewTransition b)
        \<and> b_disableTransitionOnChange q
        \<and> (b_attribute q = ''class'' \<or> valid_attribute_name (b_attribute q)) \<longrightarrow>
      (\<exists>s' b'. B_setTheme q v c (t, Some b) = Inr (s', Some b')
        \<and> b_resolvedTheme s' = resolved_str (resolve_declared v (B_getSystemTheme (Some b)))
        \<and> calls (document b')
            = calls (document b)
              @ [AppendChild (next_node (document b)), GetComputedStyle,
                 ClassListRemove [''light'', ''dark'']]
              @ (if b_attribute q = ''class'' then [ClassListAdd (b_resolvedTheme s')]
                 else [SetAttribute (b_attribute q) (b_resolvedTheme s')])
        \<and> head (document b')
            = head (document b) @ [(next_node (document b), transition_none_css)]
        \<and> computed (document b') = map fst (head (document b'))
        \<and> classList (document b')
            = filter (\<lambda>c. c \<notin> set [''light'', ''dark'']) (classList (document b))
              @ (if b_attribute q = ''class'' then [b_resolvedTheme s'] else [])
        \<and> attributes (document b')
            = (if b_attribute q = ''class'' then attributes (document b)
               else (attributes (document b))(b_attribute q \<mapsto> b_resolvedTheme s'))
        \<and> colorScheme (document b') = Some (b_resolvedTheme s')
        \<and> timers b' = timers b @ [(1, next_node (document b))]
        \<and> next_node (document b) \<notin> set (map fst (head (document (snd (tick b')))))))"
proof (intro conjI impI)
  assume "forcedTheme p = None \<and> disableTransitionOnChange p"
  then have a: "forcedTheme p = None" "disableTransitionOnChange p" by simp_all
  from A_setTheme_suppressed [OF a, of v s b] obtain s' b' where
    H: "A_setTheme p v (s, Some b) = (s', Some b')
    \<and> resolvedTheme s' = resolve_declared v (A_system_or_read s (Some b))
    \<and> calls (document b')
        = calls (document b) @ [AppendChild (next_node (document b)), GetComputedStyle]
          @ (case attribute p of
               Class \<Rightarrow> [ClassListRemove [''light'', ''dark''],
                          ClassListAdd (resolved_str (resolvedTheme s'))]
             | DataTheme \<Rightarrow> [SetAttribute ''data-theme'' (resolved_str (resolvedTheme s'))])
    \<and> head (document b') = head (document b) @ [(next_node (document b), transition_none_css)]
    \<and> computed (document b') = map fst (head (document b'))
    \<and> classList (document b')
        = (case attribute p of
             Class \<Rightarrow> filter (\<lambda>c. c \<notin> set [''light'', ''dark'']) (classList (document b))
                        @ [resolved_str (resolvedTheme s')]
           | DataTheme \<Rightarrow> classList (document b))
    \<and> attributes (document b')
        = (case attribute p of
             Class \<Rightarrow> attributes (document b)
           | DataTheme \<Rightarrow> (attributes (document b))(''data-theme'' \<mapsto> resolved_str (resolvedTheme s')))
    \<and> timers b' = timers b @ [(1, next_node (document b))]"
    by (elim exE)
  then have "timers b' = timers b @ [(1, next_node (document b))]" by (elim conjE)
  then have "(1, next_node (document b)) \<in> set (timers b')" by simp
  then have "next_node (document b) \<notin> set (map fst (head (document (snd (tick b')))))"
    by (rule tick_removes)
  with H show "\<exists>s' b'. A_setTheme p v (s, Some b) = (s', Some b')
        \<and> resolvedTheme s' = resolve_declared v (A_system_or_read s (Some b))
        \<and> calls (document b')
            = calls (document b) @ [AppendChild (next_node (document b)), GetComputedStyle]
              @ (case attribute p of
                   Class \<Rightarrow> [ClassListRemove [''light'', ''dark''],
                              ClassListAdd (resolved_str (resolvedTheme s'))]
                 | DataTheme \<Rightarrow> [SetAttribute ''data-theme'' (resolved_str (resolvedTheme s'))])
        \<and> head (document b')
            = head (document b) @ [(next_node (document b), transition_none_css)]
        \<and> computed (document b') = map fst (head (document b'))
        \<and> classList (document b')
            = (case attribute p of
                 Class \<Rightarrow> filter (\<lambda>c. c \<notin> set [''light'', ''dark'']) (classList (document b))
                            @ [resolved_str (resolvedTheme s')]
               | DataTheme \<Rightarrow> classList (document b))
        \<and> attributes (document b')
            = (case attribute p of
                 Class \<Rightarrow> attributes (document b)
               | DataTheme \<Rightarrow>
                   (attributes (document b))(''data-theme'' \<mapsto> resolved_str (resolvedTheme s')))
        \<and> timers b' = timers b @ [(1, next_node (document b))]
        \<and> next_node (document b) \<notin> set (map fst (head (document (snd (tick b')))))"
    by (intro exI [of _ s'] exI [of _ b']) (elim conjE, intro conjI, assumption+)
next
  assume "(\<not> enableViewTransitions q \<or> \<not> has_startViewTransition b)
        \<and> b_disableTransitionOnChange q
        \<and> (b_attribute q = ''class'' \<or> valid_attribute_name (b_attribute q))"
  then have a: "\<not> enableViewTransitions q \<or> \<not> has_startViewTransition b"
    "b_disableTransitionOnChange q" by simp_all
  from B_setTheme_suppressed [OF a, of v c t] obtain s' b' where
    H: "B_setTheme q v c (t, Some b) = Inr (s', Some b')
    \<and> b_resolvedTheme s' = resolved_str (resolve_declared v (B_getSystemTheme (Some b)))
    \<and> calls (document b')
        = calls (document b)
          @ [AppendChild (next_node (document b)), GetComputedStyle,
             ClassListRemove [''light'', ''dark'']]
          @ (if b_attribute q = ''class'' then [ClassListAdd (b_resolvedTheme s')]
             else [SetAttribute (b_attribute q) (b_resolvedTheme s')])
    \<and> head (document b') = head (document b) @ [(next_node (document b), transition_none_css)]
    \<and> computed (document b') = map fst (head (document b'))
    \<and> classList (document b')
        = filter (\<lambda>c. c \<notin> set [''light'', ''dark'']) (classList (document b))
          @ (if b_attribute q = ''class'' then [b_resolvedTheme s'] else [])
    \<and> attributes (document b')
        = (if b_attribute q = ''class'' then attributes (document b)
           else (attributes (document b))(b_attribute q \<mapsto> b_resolvedTheme s'))
    \<and> colorScheme (document b') = Some (b_resolvedTheme s')
    \<and> timers b' = timers b @ [(1, next_node (document b))]"
    by (elim exE)
  then have "timers b' = timers b @ [(1, next_node (document b))]" by (elim conjE)
  then have "(1, next_node (document b)) \<in> set (timers b')" by simp
  then have "next_node (document b) \<notin> set (map fst (head (document (snd (tick b')))))"
    by (rule tick_removes)
  with H show "\<exists>s' b'. B_setTheme q v c (t, Some b) = Inr (s', Some b')
        \<and> b_resolvedTheme s' = resolved_str (resolve_declared v (B_getSystemTheme (Some b)))
        \<and> calls (document b')
            = calls (document b)
              @ [AppendChild (next_node (document b)), GetComputedStyle,
                 ClassListRemove [''light'', ''dark'']]
              @ (if b_attribute q = ''class'' then [ClassListAdd (b_resolvedTheme s')]
                 else [SetAttribute (b_attribute q) (b_resolvedTheme s')])
        \<and> head (document b')
            = head (document b) @ [(next_node (document b), transition_none_css)]
        \<and> computed (document b') = map fst (head (document b'))
        \<and> classList (document b')
            = filter (\<lambda>c. c \<notin> set [''light'', ''dark'']) (classList (document b))
              @ (if b_attribute q = ''class'' then [b_resolvedTheme s'] else [])
        \<and> attributes (document b')
            = (if b_attribute q = ''class'' then attributes (document b)
               else (attributes (document b))(b_attribute q \<mapsto> b_resolvedTheme s'))
        \<and> colorScheme (document b') = Some (b_resolvedTheme s')
        \<and> timers b' = timers b @ [(1, next_node (document b))]
        \<and> next_node (document b) \<notin> set (map fst (head (document (snd (tick b')))))"
    by (intro exI [of _ s'] exI [of _ b']) (elim conjE, intro conjI, assumption+)
qed


theorem suppression_rule_lifetime_witness:
  "forcedTheme A_default_props = None \<and> disableTransitionOnChange A_default_props
   \<and> \<not> enableViewTransitions (B_default_props\<lparr>enableViewTransitions := False,
          b_disableTransitionOnChange := True\<rparr>)
   \<and> b_disableTransitionOnChange (B_default_props\<lparr>enableViewTransitions := False,
          b_disableTransitionOnChange := True\<rparr>)
   \<and> b_attribute (B_default_props\<lparr>enableViewTransitions := False,
          b_disableTransitionOnChange := True\<rparr>) = ''class''
   \<and> (\<exists>s' b'. A_setTheme A_default_props Dark
          (A_init A_default_props (Some blank_browser), Some blank_browser) = (s', Some b')
        \<and> calls (document b')
            = [AppendChild 0, GetComputedStyle, ClassListRemove [''light'', ''dark''],
               ClassListAdd ''dark'']
        \<and> head (document b') = [(0, transition_none_css)]
        \<and> computed (document b') = [0]
        \<and> classList (document b') = [''dark'']
        \<and> 0 \<notin> set (map fst (head (document (snd (tick b'))))))
   \<and> (\<exists>s' b'. B_setTheme (B_default_props\<lparr>enableViewTransitions := False,
          b_disableTransitionOnChange := True\<rparr>) Dark None
          (\<lparr>b_theme = ''light'', b_resolvedTheme = ''light'', mounted = True\<rparr>,
           Some blank_browser) = Inr (s', Some b')
        \<and> calls (document b')
            = [AppendChild 0, GetComputedStyle, ClassListRemove [''light'', ''dark''],
               ClassListAdd ''dark'']
        \<and> head (document b') = [(0, transition_none_css)]
        \<and> computed (document b') = [0]
        \<and> classList (document b') = [''dark'']
        \<and> colorScheme (document b') = Some ''dark''
        \<and> 0 \<notin> set (map fst (head (document (snd (tick b'))))))"
proof -
  let ?q = "B_default_props\<lparr>enableViewTransitions := False, b_disableTransitionOnChange := True\<rparr>"
  have h: "forcedTheme A_default_props = None" "disableTransitionOnChange A_default_props"
    "\<not> enableViewTransitions ?q" "b_disableTransitionOnChange ?q" "b_attribute ?q = ''class''"
    by (simp_all add: A_default_props_def B_default_props_def)
  have n: "next_node (document blank_browser) = 0" "calls (document blank_browser) = []"
    "head (document blank_browser) = []" "classList (document blank_browser) = []"
    "attribute A_default_props = Class"
    by (simp_all add: blank_browser_def blank_dom_def A_default_props_def)
  from suppression_rule_lifetime [of A_default_props Dark
      "A_init A_default_props (Some blank_browser)" blank_browser ?q None
      "\<lparr>b_theme = ''light'', b_resolvedTheme = ''light'', mounted = True\<rparr>"] h
  have "(\<exists>s' b'. A_setTheme A_default_props Dark
          (A_init A_default_props (Some blank_browser), Some blank_browser) = (s', Some b')
        \<and> calls (document b')
            = [AppendChild 0, GetComputedStyle, ClassListRemove [''light'', ''dark''],
               ClassListAdd ''dark'']
        \<and> head (document b') = [(0, transition_none_css)]
        \<and> computed (document b') = [0]
        \<and> classList (document b') = [''dark'']
        \<and> 0 \<notin> set (map fst (head (document (snd (tick b'))))))"
    and "(\<exists>s' b'. B_setTheme ?q Dark None
          (\<lparr>b_theme = ''light'', b_resolvedTheme = ''light'', mounted = True\<rparr>,
           Some blank_browser) = Inr (s', Some b')
        \<and> calls (document b')
            = [AppendChild 0, GetComputedStyle, ClassListRemove [''light'', ''dark''],
               ClassListAdd ''dark'']
        \<and> head (document b') = [(0, transition_none_css)]
        \<and> computed (document b') = [0]
        \<and> classList (document b') = [''dark'']
        \<and> colorScheme (document b') = Some ''dark''
        \<and> 0 \<notin> set (map fst (head (document (snd (tick b'))))))"
    by (auto simp: n)
  with h show ?thesis by simp
qed

end
